theory Spec2Isabelle
  imports Main "HOL-Library.Char_ord" "HOL-Library.List_Lexorder" "HOL-Library.AList"
    "HOL-Library.Sublist"
begin

section \<open>Data model of the LSP protocol values used by the tools\<close>

text \<open>
  The package \<open>internal/protocol\<close> is not among the sources; the declarations below
  carry the fields that \<open>ReadDefinition\<close> and \<open>FindReferences\<close> read. Line and
  character numbers are natural numbers (their Go type is declared in that package;
  the sources only add one to them and print them, and no wrap-around is modelled), a
  document URI is a string, and a Go \<open>error\<close> is represented by its message (what
  \<open>err.Error()\<close> and \<open>%v\<close> print).
\<close>

type_synonym err = string

record Position =
  Line :: nat
  Character :: nat

record Range' =
  Start :: Position
  End' :: Position

record Location =
  URI :: string
  Range' :: Range'

text \<open>
  \<open>symbolResult.Results()\<close> yields values of an interface type. The type switch of
  \<open>ReadDefinition\<close> tells three shapes apart: \<open>*protocol.SymbolInformation\<close>,
  \<open>*protocol.WorkspaceSymbol\<close>, and anything else, of which only \<open>GetName()\<close> and
  \<open>GetLocation()\<close> are used. The arguments are name, kind, container name, location.
\<close>

datatype symbol =
    SymbolInformation string nat string Location
  | WorkspaceSymbol string nat string Location
  | OtherSymbol string Location

fun GetName :: "symbol \<Rightarrow> string" where
  "GetName (SymbolInformation n k c l) = n"
| "GetName (WorkspaceSymbol n k c l) = n"
| "GetName (OtherSymbol n l) = n"

fun GetLocation :: "symbol \<Rightarrow> Location" where
  "GetLocation (SymbolInformation n k c l) = l"
| "GetLocation (WorkspaceSymbol n k c l) = l"
| "GetLocation (OtherSymbol n l) = l"

text \<open>
  \<open>protocol.ReferenceParams\<close>: the document URI, the position, and the
  \<open>IncludeDeclaration\<close> flag of the reference context.
\<close>

record ReferenceParams =
  TextDocument :: string
  Position :: Position
  IncludeDeclaration :: bool

section \<open>The collaborators\<close>

text \<open>
  The LSP client, the helpers of package \<open>tools\<close> that are defined in other files
  (\<open>GetFullDefinition\<close>, \<open>GetLineRangesToDisplay\<close>, \<open>ConvertLinesToRanges\<close>,
  \<open>FormatLinesWithRanges\<close>, \<open>addLineNumbers\<close>), the table \<open>protocol.TableKindMap\<close>,
  the method \<open>DocumentUri.Path\<close> and \<open>os.ReadFile\<close> are parameters. Every call that
  goes through the client takes the client's state \<open>'c\<close> and returns the new one, so
  that the order of the calls and what an earlier call did to the server are part of
  the model. A call that returns a Go \<open>error\<close> alone returns \<open>err option\<close>; a call
  that returns a value or an error returns \<open>err + value\<close>. \<open>GetFullDefinition\<close>
  returns its three results as they are, because the caller reads the location before
  it looks at the error. \<open>client.Symbol\<close> yields a result set whose \<open>Results()\<close>
  method may fail; the result set is represented by what \<open>Results()\<close> returns.
  The types \<open>'ls\<close> and \<open>'rg\<close> are those of the set of lines to show and of the list of
  line ranges. Calls of the package logger are not modelled in package \<open>tools\<close>.
\<close>

type_synonym SymbolResult = "err + symbol list"

definition Results :: "SymbolResult \<Rightarrow> err + symbol list" where
  "Results symbolResult = symbolResult"

record ('c, 'ls, 'rg) collaborators =
  Symbol :: "string \<Rightarrow> 'c \<Rightarrow> (err + SymbolResult) \<times> 'c"
  OpenFile :: "string \<Rightarrow> 'c \<Rightarrow> err option \<times> 'c"
  References :: "ReferenceParams \<Rightarrow> 'c \<Rightarrow> (err + Location list) \<times> 'c"
  GetFullDefinition :: "Location \<Rightarrow> 'c \<Rightarrow> (string \<times> Location \<times> err option) \<times> 'c"
  GetLineRangesToDisplay :: "Location list \<Rightarrow> nat \<Rightarrow> int \<Rightarrow> 'c \<Rightarrow> (err + 'ls) \<times> 'c"
  ConvertLinesToRanges :: "'ls \<Rightarrow> nat \<Rightarrow> 'rg"
  FormatLinesWithRanges :: "string list \<Rightarrow> 'rg \<Rightarrow> string"
  addLineNumbers :: "string \<Rightarrow> nat \<Rightarrow> string"
  TableKindMap :: "nat \<Rightarrow> string"
  URI_Path :: "string \<Rightarrow> string"
  ReadFile :: "string \<Rightarrow> err + string"

section \<open>Strings\<close>

text \<open>\<open>%d\<close> of a non-negative number: its decimal digits, most significant first.\<close>

definition digit :: "nat \<Rightarrow> char" where
  "digit d = char_of (48 + d)"

function itoa :: "nat \<Rightarrow> string" where
  "itoa n = (if n < 10 then [digit n] else itoa (n div 10) @ [digit (n mod 10)])"
  by pat_completeness auto
termination
  by (relation "measure id") auto

declare itoa.simps [simp del]

text \<open>\<open>strings.TrimPrefix\<close>, \<open>strings.Join\<close>, and \<open>strings.Split\<close> at the newline.\<close>

definition TrimPrefix :: "string \<Rightarrow> string \<Rightarrow> string" where
  "TrimPrefix s p = (if take (length p) s = p then drop (length p) s else s)"

fun Join :: "string list \<Rightarrow> string \<Rightarrow> string" where
  "Join [] sep = []"
| "Join [x] sep = x"
| "Join (x # y # ys) sep = x @ sep @ Join (y # ys) sep"

fun SplitLines :: "string \<Rightarrow> string list" where
  "SplitLines [] = [] # []"
| "SplitLines (ch # cs) =
     (if ch = CHR ''\<newline>'' then [] # SplitLines cs
      else (case SplitLines cs of [] \<Rightarrow> [ch] # [] | l # ls \<Rightarrow> (ch # l) # ls))"

section \<open>ReadDefinition\<close>

text \<open>
  The type switch at the head of the loop body. \<open>None\<close> is the \<open>continue\<close> of the
  default branch; otherwise the result is the pair of the strings \<open>kind\<close> and
  \<open>container\<close>.
\<close>

fun kindAndContainer :: "('c, 'ls, 'rg) collaborators \<Rightarrow> string \<Rightarrow> symbol \<Rightarrow> (string \<times> string) option" where
  "kindAndContainer env symbolName (SymbolInformation n k containerName l) =
     Some (''Kind: '' @ TableKindMap env k @ ''\<newline>'',
           if containerName \<noteq> [] then ''Container Name: '' @ containerName @ ''\<newline>'' else [])"
| "kindAndContainer env symbolName (WorkspaceSymbol n k containerName l) =
     Some (if containerName \<noteq> []
           then (''Kind: '' @ TableKindMap env k @ ''\<newline>'',
                 ''Container Name: '' @ containerName @ ''\<newline>'')
           else ([], []))"
| "kindAndContainer env symbolName (OtherSymbol n l) =
     (if n \<noteq> symbolName then None else Some ([], []))"

definition banner :: string where
  "banner = ''---\<newline>\<newline>''"

definition rangeInfo :: "Location \<Rightarrow> string" where
  "rangeInfo loc =
     ''Range: L'' @ itoa (Line (Start (Range' loc)) + 1) @
     '':C'' @ itoa (Character (Start (Range' loc)) + 1) @
     '' - L'' @ itoa (Line (End' (Range' loc)) + 1) @
     '':C'' @ itoa (Character (End' (Range' loc)) + 1) @ ''\<newline>\<newline>''"

text \<open>
  The \<open>fmt.Sprintf\<close> that builds \<open>locationInfo\<close>. The strings \<open>kind\<close> and
  \<open>container\<close> are part of the format string in the source; they are taken
  literally here, which is what \<open>Sprintf\<close> does with them as long as they contain
  no percent sign.
\<close>

definition locationInfo :: "string \<Rightarrow> string \<Rightarrow> string \<Rightarrow> Location \<Rightarrow> string" where
  "locationInfo name kind container loc =
     ''Symbol: '' @ name @ ''\<newline>'' @
     ''File: '' @ TrimPrefix (URI loc) ''file://'' @ ''\<newline>'' @
     kind @
     container @
     rangeInfo loc"

text \<open>
  The loop over the results, with the slice \<open>definitions\<close> as accumulator. Each of
  the three \<open>continue\<close> statements is a recursive call that leaves the accumulator as
  it is.
\<close>

fun definitionsLoop ::
  "('c, 'ls, 'rg) collaborators \<Rightarrow> string \<Rightarrow> symbol list \<Rightarrow> string list \<Rightarrow> 'c \<Rightarrow> string list \<times> 'c" where
  "definitionsLoop env symbolName [] definitions c = (definitions, c)"
| "definitionsLoop env symbolName (symbol # rest) definitions c =
     (case kindAndContainer env symbolName symbol of
        None \<Rightarrow> definitionsLoop env symbolName rest definitions c
      | Some (kind, container) \<Rightarrow>
          (case OpenFile env (URI_Path env (URI (GetLocation symbol))) c of
             (Some e, c1) \<Rightarrow> definitionsLoop env symbolName rest definitions c1
           | (None, c1) \<Rightarrow>
               (case GetFullDefinition env (GetLocation symbol) c1 of
                  ((definition, loc, e), c2) \<Rightarrow>
                    (let info = locationInfo (GetName symbol) kind container loc in
                     case e of
                       Some e' \<Rightarrow> definitionsLoop env symbolName rest definitions c2
                     | None \<Rightarrow>
                         definitionsLoop env symbolName rest
                           (definitions @
                              [banner @ info @
                               addLineNumbers env definition (Line (Start (Range' loc)) + 1) @
                               ''\<newline>''])
                           c2))))"

definition ReadDefinition ::
  "('c, 'ls, 'rg) collaborators \<Rightarrow> string \<Rightarrow> 'c \<Rightarrow> (err + string) \<times> 'c" where
  "ReadDefinition env symbolName c =
     (case Symbol env symbolName c of
        (Inl e, c1) \<Rightarrow> (Inl (''failed to fetch symbol: '' @ e), c1)
      | (Inr symbolResult, c1) \<Rightarrow>
          (case Results symbolResult of
             Inl e \<Rightarrow> (Inl (''failed to parse results: '' @ e), c1)
           | Inr results \<Rightarrow>
               (case definitionsLoop env symbolName results [] c1 of
                  (definitions, c2) \<Rightarrow>
                    if length definitions = 0
                    then (Inr (symbolName @ '' not found''), c2)
                    else (Inr (Join definitions []), c2))))"

section \<open>FindReferences\<close>

subsection \<open>The context width\<close>

text \<open>
  \<open>strconv.Atoi\<close> of the Go standard library, for a 64-bit \<open>int\<close>: an optional
  sign, then decimal digits only; the empty string, a sign alone and any other
  character are syntax errors, a value outside the 64-bit signed range is a range
  error. The loop is the one of \<open>strconv.ParseUint\<close> in base 10, with its two
  overflow tests.
\<close>

datatype NumError = ErrSyntax | ErrRange

definition maxUint64 :: int where
  "maxUint64 = 2 ^ 64 - 1"

fun ParseUint :: "string \<Rightarrow> int \<Rightarrow> NumError + int" where
  "ParseUint [] n = Inr n"
| "ParseUint (ch # cs) n =
     (if \<not> (CHR ''0'' \<le> ch \<and> ch \<le> CHR ''9'') then Inl ErrSyntax
      else if n \<ge> maxUint64 div 10 + 1 then Inl ErrRange
      else (let n1 = n * 10 + (of_char ch - 48) in
            if n1 > maxUint64 then Inl ErrRange else ParseUint cs n1))"

definition Atoi :: "string \<Rightarrow> NumError + int" where
  "Atoi s =
     (if s = [] then Inl ErrSyntax
      else (let neg = (hd s = CHR ''-'');
                s1 = (if hd s = CHR ''+'' \<or> hd s = CHR ''-'' then tl s else s) in
            if s1 = [] then Inl ErrSyntax
            else (case ParseUint s1 0 of
                    Inl e \<Rightarrow> Inl e
                  | Inr un \<Rightarrow>
                      if \<not> neg \<and> un \<ge> 2 ^ 63 then Inl ErrRange
                      else if neg \<and> un > 2 ^ 63 then Inl ErrRange
                      else Inr (if neg then - un else un))))"


text \<open>
  The process environment is a map from names to values; \<open>os.Getenv\<close> returns the
  empty string for a name that is not set.
\<close>

definition Getenv :: "(string \<rightharpoonup> string) \<Rightarrow> string \<Rightarrow> string" where
  "Getenv environ key = (case environ key of None \<Rightarrow> [] | Some v \<Rightarrow> v)"

definition contextLinesFromEnv :: "(string \<rightharpoonup> string) \<Rightarrow> int" where
  "contextLinesFromEnv environ =
     (let envLines = Getenv environ ''LSP_CONTEXT_LINES'' in
      if envLines \<noteq> [] then
        (case Atoi envLines of
           Inr val \<Rightarrow> if val \<ge> 0 then val else 5
         | Inl e \<Rightarrow> 5)
      else 5)"

subsection \<open>Grouping the references by file\<close>

text \<open>
  The Go map \<open>refsByFile\<close> is an association list with one entry per key. Reading a
  key that is absent gives the nil slice. The keys are collected in the map's
  iteration order, which Go leaves unspecified, and then sorted with
  \<open>sort.Strings\<close>; the keys being distinct, the sorted list does not depend on that
  order.
\<close>

definition lookupRefs :: "(string \<times> Location list) list \<Rightarrow> string \<Rightarrow> Location list" where
  "lookupRefs refsByFile uri = (case map_of refsByFile uri of None \<Rightarrow> [] | Some l \<Rightarrow> l)"

fun groupRefs :: "Location list \<Rightarrow> (string \<times> Location list) list \<Rightarrow> (string \<times> Location list) list" where
  "groupRefs [] refsByFile = refsByFile"
| "groupRefs (ref # refs) refsByFile =
     groupRefs refs (AList.update (URI ref) (lookupRefs refsByFile (URI ref) @ [ref]) refsByFile)"

definition sortedUris :: "(string \<times> Location list) list \<Rightarrow> string list" where
  "sortedUris refsByFile = sort (map fst refsByFile)"

subsection \<open>One block per file\<close>

definition fileInfo :: "string \<Rightarrow> nat \<Rightarrow> string" where
  "fileInfo filePath n =
     ''---\<newline>\<newline>'' @ filePath @ ''\<newline>References in File: '' @ itoa n @ ''\<newline>''"

definition locStr :: "Location \<Rightarrow> string" where
  "locStr ref =
     ''L'' @ itoa (Line (Start (Range' ref)) + 1) @ '':C'' @ itoa (Character (Start (Range' ref)) + 1)"

text \<open>
  The loop over the sorted URIs, with the slice \<open>allReferences\<close> as accumulator. A
  file that cannot be read contributes its header and the error text; a file whose
  lines to display cannot be computed contributes nothing.
\<close>

fun filesLoop ::
  "('c, 'ls, 'rg) collaborators \<Rightarrow> int \<Rightarrow> (string \<times> Location list) list \<Rightarrow> string list \<Rightarrow>
   string list \<Rightarrow> 'c \<Rightarrow> string list \<times> 'c" where
  "filesLoop env contextLines refsByFile [] allReferences c = (allReferences, c)"
| "filesLoop env contextLines refsByFile (uriStr # rest) allReferences c =
     (let fileRefs = lookupRefs refsByFile uriStr;
          filePath = TrimPrefix uriStr ''file://'';
          info = fileInfo filePath (length fileRefs) in
      case ReadFile env filePath of
        Inl e \<Rightarrow>
          filesLoop env contextLines refsByFile rest
            (allReferences @ [info @ ''\<newline>Error reading file: '' @ e]) c
      | Inr fileContent \<Rightarrow>
          (let lines = SplitLines fileContent;
               locStrings = map locStr fileRefs in
           case GetLineRangesToDisplay env fileRefs (length lines) contextLines c of
             (Inl e, c1) \<Rightarrow> filesLoop env contextLines refsByFile rest allReferences c1
           | (Inr linesToShow, c1) \<Rightarrow>
               (let lineRanges = ConvertLinesToRanges env linesToShow (length lines);
                    formattedOutput =
                      info @
                      (if length locStrings > 0
                       then ''At: '' @ Join locStrings '', '' @ ''\<newline>'' else []) @
                      ''\<newline>'' @ FormatLinesWithRanges env lines lineRanges in
                filesLoop env contextLines refsByFile rest (allReferences @ [formattedOutput]) c1)))"

subsection \<open>The loop over the matched symbols\<close>

text \<open>
  \<open>Inl\<close> is the early \<open>return "", fmt.Errorf(...)\<close> out of the loop; a failed
  \<open>OpenFile\<close> is the \<open>continue\<close>.
\<close>

fun referencesLoop ::
  "('c, 'ls, 'rg) collaborators \<Rightarrow> int \<Rightarrow> symbol list \<Rightarrow> string list \<Rightarrow> 'c \<Rightarrow>
   (err + string list) \<times> 'c" where
  "referencesLoop env contextLines [] allReferences c = (Inr allReferences, c)"
| "referencesLoop env contextLines (symbol # rest) allReferences c =
     (let loc = GetLocation symbol;
          refsParams = \<lparr>TextDocument = URI loc, Position = Start (Range' loc),
                        IncludeDeclaration = False\<rparr> in
      case OpenFile env (URI_Path env (URI loc)) c of
        (Some e, c1) \<Rightarrow> referencesLoop env contextLines rest allReferences c1
      | (None, c1) \<Rightarrow>
          (case References env refsParams c1 of
             (Inl e, c2) \<Rightarrow> (Inl (''failed to get references: '' @ e), c2)
           | (Inr refs, c2) \<Rightarrow>
               (let refsByFile = groupRefs refs [];
                    uris = sortedUris refsByFile in
                case filesLoop env contextLines refsByFile uris allReferences c2 of
                  (allReferences', c3) \<Rightarrow>
                    referencesLoop env contextLines rest allReferences' c3)))"

definition FindReferences ::
  "('c, 'ls, 'rg) collaborators \<Rightarrow> (string \<rightharpoonup> string) \<Rightarrow> string \<Rightarrow> 'c \<Rightarrow> (err + string) \<times> 'c" where
  "FindReferences env environ symbolName c =
     (let contextLines = contextLinesFromEnv environ in
      case Symbol env symbolName c of
        (Inl e, c1) \<Rightarrow> (Inl (''failed to fetch symbol: '' @ e), c1)
      | (Inr symbolResult, c1) \<Rightarrow>
          (case Results symbolResult of
             Inl e \<Rightarrow> (Inl (''failed to parse results: '' @ e), c1)
           | Inr results \<Rightarrow>
               (case referencesLoop env contextLines results [] c1 of
                  (Inl e, c2) \<Rightarrow> (Inl e, c2)
                | (Inr allReferences, c2) \<Rightarrow>
                    if length allReferences = 0
                    then (Inr (''No references found for symbol: '' @ symbolName), c2)
                    else (Inr (Join allReferences ''\<newline>''), c2))))"

section \<open>The line-range merger\<close>

text \<open>
  Modelled from the spec: \<open>GetLineRangesToDisplay\<close> and \<open>ConvertLinesToRanges\<close> are
  defined in a file of package \<open>tools\<close> that is not among the sources; only their
  call in \<open>FindReferences\<close> is. The definitions below follow section 4.4 of the
  specification, \<open>MergeRanges(points, totalLines, context)\<close>: the raw window of a
  point line \<open>L\<close> is \<open>[L - context, L + context]\<close> with both ends clamped to
  \<open>[1, totalLines]\<close>; the raw windows are sorted by start line; then they are merged
  greedily, the next window joining the current one if its start is at most the
  current window's end plus one.
\<close>

record DisplayRange =
  startLine :: int
  endLine :: int

definition clampLine :: "int \<Rightarrow> int \<Rightarrow> int" where
  "clampLine totalLines x = max 1 (min totalLines x)"

definition rawWindow :: "int \<Rightarrow> int \<Rightarrow> int \<Rightarrow> DisplayRange" where
  "rawWindow totalLines context L =
     \<lparr>startLine = clampLine totalLines (L - context),
      endLine = clampLine totalLines (L + context)\<rparr>"

fun mergeWindows :: "DisplayRange list \<Rightarrow> DisplayRange list" where
  "mergeWindows [] = []"
| "mergeWindows [w] = [w]"
| "mergeWindows (cur # nxt # rest) =
     (if startLine nxt \<le> endLine cur + 1
      then mergeWindows (cur\<lparr>endLine := max (endLine cur) (endLine nxt)\<rparr> # rest)
      else cur # mergeWindows (nxt # rest))"

definition MergeRanges :: "int list \<Rightarrow> int \<Rightarrow> int \<Rightarrow> DisplayRange list" where
  "MergeRanges points totalLines context =
     mergeWindows (sort_key startLine (map (rawWindow totalLines context) points))"

text \<open>Consecutive ranges of a list are separated by at least one line that is in neither.\<close>

fun separated :: "DisplayRange list \<Rightarrow> bool" where
  "separated [] = True"
| "separated [w] = True"
| "separated (a # b # rest) = (endLine a + 1 < startLine b \<and> separated (b # rest))"

section \<open>The warm-up of clangd\<close>

text \<open>
  The logger is a list of entries, the level and the formatted message, that every
  function extends. \<open>time.Sleep\<close> is not modelled.
\<close>

datatype level = Debug | Info | Warn

type_synonym log = "(level \<times> string) list"

definition warmupClangdStaticIndex ::
  "('c, 'ls, 'rg) collaborators \<Rightarrow> log \<Rightarrow> 'c \<Rightarrow> err option \<times> log \<times> 'c" where
  "warmupClangdStaticIndex env lg c =
     (let lg1 = lg @ [(Info, ''Warming up clangd static index...'')] in
      case Symbol env ''::'' c of
        (r1, c1) \<Rightarrow>
          (let lg2 = lg1 @
                 [case r1 of
                    Inl e \<Rightarrow> (Warn, ''First warmup symbol query failed: '' @ e)
                  | Inr x \<Rightarrow> (Debug, ''First warmup symbol query completed'')] in
           case Symbol env [] c1 of
             (r2, c2) \<Rightarrow>
               (let lg3 = lg2 @
                      [case r2 of
                         Inl e \<Rightarrow> (Warn, ''Second warmup symbol query failed: '' @ e)
                       | Inr x \<Rightarrow> (Debug, ''Second warmup symbol query completed'')] in
                (None, lg3 @ [(Info, ''Static index warmup completed'')], c2))))"

subsection \<open>Walking the workspace\<close>

text \<open>
  The part of the file system under the workspace directory, as \<open>filepath.Walk\<close>
  sees it: a name that is not a directory, a directory with its entries in the order
  in which they are read (sorted by name), a directory whose entries cannot be read,
  and a name on which \<open>Lstat\<close> fails. The root's own name is not used: the walk
  starts with the path it was given. The path of an entry is the directory's path,
  a slash, and the entry's name (\<open>filepath.Join\<close> without its cleaning of the
  path).
\<close>

datatype fsnode =
    File string
  | Dir string "fsnode list"
  | DirUnreadable string err
  | LstatError string err

fun nodeName :: "fsnode \<Rightarrow> string" where
  "nodeName (File n) = n"
| "nodeName (Dir n ch) = n"
| "nodeName (DirUnreadable n e) = n"
| "nodeName (LstatError n e) = n"

fun isFile :: "fsnode \<Rightarrow> bool" where
  "isFile (File n) = True"
| "isFile other = False"

text \<open>What the function given to the walk returns: \<open>nil\<close>, \<open>filepath.SkipDir\<close>, or another error.\<close>

datatype walkResult = Continue | SkipDir | Fail err

definition HasPrefix :: "string \<Rightarrow> string \<Rightarrow> bool" where
  "HasPrefix s p = (take (length p) s = p)"

definition HasSuffix :: "string \<Rightarrow> string \<Rightarrow> bool" where
  "HasSuffix s p = (length p \<le> length s \<and> drop (length s - length p) s = p)"

text \<open>\<open>filepath.Base\<close> on a system whose separator is the slash.\<close>

definition Base :: "string \<Rightarrow> string" where
  "Base path =
     (if path = [] then ''.''
      else (let stripped = rev (dropWhile (\<lambda>ch. ch = CHR ''/'') (rev path));
                last_elem = rev (takeWhile (\<lambda>ch. ch \<noteq> CHR ''/'') (rev stripped)) in
            if last_elem = [] then ''/'' else last_elem))"

text \<open>
  The function literal passed to \<open>filepath.Walk\<close>; the slice \<open>cppFiles\<close> it appends
  to is threaded through. The second argument is \<open>info.IsDir()\<close>, which is read
  only when there is no error.
\<close>

definition walkFn :: "string \<Rightarrow> bool \<Rightarrow> err option \<Rightarrow> string list \<Rightarrow> walkResult \<times> string list" where
  "walkFn path isDir e cppFiles =
     (case e of
        Some e' \<Rightarrow> (Fail e', cppFiles)
      | None \<Rightarrow>
          if isDir then
            (let basename = Base path in
             if HasPrefix basename ''.'' \<or> basename = ''build'' \<or> basename = ''cmake-build-debug''
             then (SkipDir, cppFiles) else (Continue, cppFiles))
          else if HasSuffix path ''.cpp'' \<or> HasSuffix path ''.cxx'' \<or> HasSuffix path ''.cc''
          then (Continue, cppFiles @ [path])
          else (Continue, cppFiles))"

text \<open>
  \<open>filepath.Walk\<close> of the Go standard library. \<open>walk\<close> visits one name,
  \<open>walkNames\<close> is the loop over the entries of a directory: an error other than
  \<open>SkipDir\<close> ends the walk, \<open>SkipDir\<close> returned for a directory or for a name whose
  \<open>Lstat\<close> failed skips that name, \<open>SkipDir\<close> returned for a file skips the rest of
  the directory.
\<close>

fun walk :: "string \<Rightarrow> fsnode \<Rightarrow> string list \<Rightarrow> walkResult \<times> string list"
  and walkNames :: "string \<Rightarrow> fsnode list \<Rightarrow> string list \<Rightarrow> walkResult \<times> string list" where
  "walk path (File n) cppFiles = walkFn path False None cppFiles"
| "walk path (LstatError n e) cppFiles = walkFn path False (Some e) cppFiles"
| "walk path (DirUnreadable n e) cppFiles = walkFn path True (Some e) cppFiles"
| "walk path (Dir n entries) cppFiles =
     (case walkFn path True None cppFiles of
        (Continue, cppFiles1) \<Rightarrow> walkNames path entries cppFiles1
      | (r, cppFiles1) \<Rightarrow> (r, cppFiles1))"
| "walkNames path [] cppFiles = (Continue, cppFiles)"
| "walkNames path (entry # rest) cppFiles =
     (case walk (path @ ''/'' @ nodeName entry) entry cppFiles of
        (Continue, cppFiles1) \<Rightarrow> walkNames path rest cppFiles1
      | (SkipDir, cppFiles1) \<Rightarrow>
          if isFile entry then (SkipDir, cppFiles1) else walkNames path rest cppFiles1
      | (Fail e, cppFiles1) \<Rightarrow> (Fail e, cppFiles1))"

definition Walk :: "string \<Rightarrow> fsnode \<Rightarrow> string list \<Rightarrow> err option \<times> string list" where
  "Walk root fs cppFiles =
     (case walk root fs cppFiles of
        (Fail e, cppFiles1) \<Rightarrow> (Some e, cppFiles1)
      | (r, cppFiles1) \<Rightarrow> (None, cppFiles1))"

subsection \<open>Opening the core files\<close>

definition maxFilesToOpen :: nat where
  "maxFilesToOpen = 3"

fun openLoop ::
  "('c, 'ls, 'rg) collaborators \<Rightarrow> string list \<Rightarrow> nat \<Rightarrow> log \<Rightarrow> 'c \<Rightarrow> nat \<times> log \<times> 'c" where
  "openLoop env [] fileCount lg c = (fileCount, lg, c)"
| "openLoop env (filePath # rest) fileCount lg c =
     (if fileCount \<ge> maxFilesToOpen then (fileCount, lg, c)
      else (case OpenFile env filePath c of
              (Some e, c1) \<Rightarrow>
                openLoop env rest fileCount
                  (lg @ [(Warn, ''Failed to open C++ file '' @ filePath @ '': '' @ e)]) c1
            | (None, c1) \<Rightarrow>
                openLoop env rest (fileCount + 1)
                  (lg @ [(Debug, ''Opened core C++ file: '' @ filePath)]) c1))"

definition openCoreCppFiles ::
  "('c, 'ls, 'rg) collaborators \<Rightarrow> fsnode \<Rightarrow> string \<Rightarrow> log \<Rightarrow> 'c \<Rightarrow> err option \<times> log \<times> 'c" where
  "openCoreCppFiles env fs workspaceDir lg c =
     (let lg1 = lg @ [(Info, ''Opening core C++ files in workspace: '' @ workspaceDir)] in
      case Walk workspaceDir fs [] of
        (Some e, cppFiles) \<Rightarrow> (Some (''error walking workspace directory: '' @ e), lg1, c)
      | (None, cppFiles) \<Rightarrow>
          (case openLoop env cppFiles 0 lg1 c of
             (fileCount, lg2, c1) \<Rightarrow>
               (None, lg2 @ [(Info, ''Opened '' @ itoa fileCount @ '' core C++ files'')], c1)))"

definition initializeClangdLanguageServer ::
  "('c, 'ls, 'rg) collaborators \<Rightarrow> fsnode \<Rightarrow> string \<Rightarrow> log \<Rightarrow> 'c \<Rightarrow> err option \<times> log \<times> 'c" where
  "initializeClangdLanguageServer env fs workspaceDir lg c =
     (let lg1 = lg @ [(Info, ''Initializing Clangd language server with workspace: '' @ workspaceDir)] in
      case warmupClangdStaticIndex env lg1 c of
        (e1, lg2, c1) \<Rightarrow>
          (let lg3 = (case e1 of
                        Some e \<Rightarrow> lg2 @ [(Warn, ''Failed to warm up static index (continuing anyway): '' @ e)]
                      | None \<Rightarrow> lg2) in
           case openCoreCppFiles env fs workspaceDir lg3 c1 of
             (e2, lg4, c2) \<Rightarrow>
               (let lg5 = (case e2 of
                             Some e \<Rightarrow> lg4 @ [(Warn, ''Failed to open core C++ files (continuing anyway): '' @ e)]
                           | None \<Rightarrow> lg4) in
                (None, lg5 @ [(Info, ''Clangd language server initialization completed successfully'')], c2))))"

section \<open>A concrete backend\<close>

text \<open>
  A small backend on which the functions above can be evaluated. Its state counts
  the calls that went through the client. The symbol query returns the given
  matches and the references request the given locations. Opening
  \<open>/missing.cpp\<close> fails, the references request fails for a symbol declared in
  \<open>file:///bad.cpp\<close>, the definition of a symbol in \<open>file:///nodef.cpp\<close> cannot be
  expanded, \<open>/unreadable.cpp\<close> cannot be read, and the lines to display cannot be
  computed for references in \<open>file:///norange.cpp\<close>.
\<close>

definition loc0 :: "string \<Rightarrow> nat \<Rightarrow> nat \<Rightarrow> Location" where
  "loc0 uri l ch =
     \<lparr>URI = uri, Range' = \<lparr>Start = \<lparr>Line = l, Character = ch\<rparr>,
                            End' = \<lparr>Line = l, Character = ch + 3\<rparr>\<rparr>\<rparr>"

definition backend :: "symbol list \<Rightarrow> Location list \<Rightarrow> (nat, unit, unit) collaborators" where
  "backend syms refs =
     \<lparr>Symbol = (\<lambda>q c. (Inr (Inr syms), c + 1)),
      OpenFile = (\<lambda>p c. (if p = ''/missing.cpp'' then Some ''no such file'' else None, c + 1)),
      References = (\<lambda>params c.
         (if TextDocument params = ''file:///bad.cpp'' then Inl ''request failed'' else Inr refs,
          c + 1)),
      GetFullDefinition = (\<lambda>loc c.
         ((''int f();'', loc,
           if URI loc = ''file:///nodef.cpp'' then Some ''no definition'' else None), c + 1)),
      GetLineRangesToDisplay = (\<lambda>fileRefs n k c.
         (if ''file:///norange.cpp'' \<in> set (map URI fileRefs) then Inl ''no ranges'' else Inr (),
          c + 1)),
      ConvertLinesToRanges = (\<lambda>ls n. ()),
      FormatLinesWithRanges = (\<lambda>lines rg. ''<lines>''),
      addLineNumbers = (\<lambda>s n. itoa n @ ''|'' @ s),
      TableKindMap = (\<lambda>k. if k = 12 then ''Function'' else if k = 5 then ''Class'' else []),
      URI_Path = (\<lambda>u. TrimPrefix u ''file://''),
      ReadFile = (\<lambda>p. if p = ''/unreadable.cpp'' then Inl ''permission denied''
                       else Inr ''a\<newline>b'')\<rparr>"

section \<open>Properties of the line-range merger\<close>

lemma mergeWindows_head:
  "\<exists>w' ws'. mergeWindows (w # ws) = w' # ws' \<and> startLine w' = startLine w"
  by (induction "w # ws" arbitrary: w ws rule: mergeWindows.induct) auto

lemma separated_mergeWindows:
  "sorted (map startLine ws) \<Longrightarrow> separated (mergeWindows ws)"
proof (induction ws rule: mergeWindows.induct)
  case 1
  then show ?case by simp
next
  case (2 w)
  then show ?case by simp
next
  case (3 cur nxt rest)
  show ?case
  proof (cases "startLine nxt \<le> endLine cur + 1")
    case True
    have "sorted (map startLine (cur\<lparr>endLine := max (endLine cur) (endLine nxt)\<rparr> # rest))"
      using 3(3) by auto
    with 3(1) True show ?thesis by simp
  next
    case False
    have s: "sorted (map startLine (nxt # rest))" using 3(3) by simp
    obtain w' ws' where h: "mergeWindows (nxt # rest) = w' # ws'" "startLine w' = startLine nxt"
      using mergeWindows_head by blast
    from 3(2) False s have "separated (mergeWindows (nxt # rest))" by simp
    with h False show ?thesis by simp
  qed
qed

text \<open>
  Claim C2. For every list of point lines, total line count and context width,
  \<open>MergeRanges\<close> takes for each point \<open>L\<close> the window from \<open>L - context\<close> to
  \<open>L + context\<close> with both ends clamped to \<open>[1, totalLines]\<close>, sorts the windows by
  start line and merges them greedily, so that no window of the result starts at or
  before the end plus one of the window before it. On the three inputs of the
  specification the results are \<open>[{5,15}]\<close>, \<open>[{9,13}]\<close> and \<open>[{9,11},{49,51}]\<close>.
\<close>

theorem MergeRanges_windows_sorted_merged:
  "MergeRanges points totalLines context =
     mergeWindows (sort_key startLine
       (map (\<lambda>L. \<lparr>startLine = max 1 (min totalLines (L - context)),
                   endLine = max 1 (min totalLines (L + context))\<rparr>) points))
   \<and> sorted (map startLine (sort_key startLine (map (rawWindow totalLines context) points)))
   \<and> separated (MergeRanges points totalLines context)
   \<and> MergeRanges [10] 100 5 = [\<lparr>startLine = 5, endLine = 15\<rparr>]
   \<and> MergeRanges [10, 12] 100 1 = [\<lparr>startLine = 9, endLine = 13\<rparr>]
   \<and> MergeRanges [10, 50] 100 1 =
       [\<lparr>startLine = 9, endLine = 11\<rparr>, \<lparr>startLine = 49, endLine = 51\<rparr>]"
proof -
  have a: "rawWindow totalLines context =
      (\<lambda>L. \<lparr>startLine = max 1 (min totalLines (L - context)),
             endLine = max 1 (min totalLines (L + context))\<rparr>)"
    by (rule ext) (simp add: rawWindow_def clampLine_def)
  have b: "sorted (map startLine (sort_key startLine (map (rawWindow totalLines context) points)))"
    by simp
  have c: "separated (MergeRanges points totalLines context)"
    unfolding MergeRanges_def by (rule separated_mergeWindows) (rule b)
  have d: "MergeRanges [10] 100 5 = [\<lparr>startLine = 5, endLine = 15\<rparr>]"
    by (simp add: MergeRanges_def rawWindow_def clampLine_def)
  have e: "MergeRanges [10, 12] 100 1 = [\<lparr>startLine = 9, endLine = 13\<rparr>]"
    by (simp add: MergeRanges_def rawWindow_def clampLine_def)
  have f: "MergeRanges [10, 50] 100 1 =
      [\<lparr>startLine = 9, endLine = 11\<rparr>, \<lparr>startLine = 49, endLine = 51\<rparr>]"
    by (simp add: MergeRanges_def rawWindow_def clampLine_def)
  show ?thesis using a b c d e f by (simp add: MergeRanges_def)
qed

section \<open>Properties of ReadDefinition\<close>

lemma Join_no_separator: "Join xs [] = concat xs"
  by (induction xs "[] :: string" rule: Join.induct) auto

lemma definitionsLoop_step:
  "\<exists>c'. definitionsLoop env q (s # rest) defs c = definitionsLoop env q rest defs c'
       \<or> (\<exists>body. definitionsLoop env q (s # rest) defs c =
             definitionsLoop env q rest
               (defs @ [banner @ ''Symbol: '' @ GetName s @ ''\<newline>'' @ body]) c')"
  by (auto simp: locationInfo_def Let_def split: option.splits prod.splits)

lemma definitionsLoop_append:
  "definitionsLoop env q (xs @ ys) defs c =
     definitionsLoop env q ys (fst (definitionsLoop env q xs defs c))
       (snd (definitionsLoop env q xs defs c))"
  by (induction xs arbitrary: defs c)
     (auto simp: Let_def split: option.splits prod.splits)

lemma definitionsLoop_subseq:
  "\<exists>kept bodies. subseq kept syms \<and> length bodies = length kept \<and>
     fst (definitionsLoop env q syms defs c) =
       defs @ map2 (\<lambda>s body. banner @ ''Symbol: '' @ GetName s @ ''\<newline>'' @ body) kept bodies"
proof (induction syms arbitrary: defs c)
  case Nil
  show ?case by (rule exI [of _ "[]"], rule exI [of _ "[]"]) simp
next
  case (Cons s rest)
  let ?blk = "\<lambda>s body. banner @ ''Symbol: '' @ GetName s @ ''\<newline>'' @ body"
  from definitionsLoop_step [of env q s rest defs c]
  obtain c' where
    "definitionsLoop env q (s # rest) defs c = definitionsLoop env q rest defs c'
       \<or> (\<exists>body. definitionsLoop env q (s # rest) defs c =
             definitionsLoop env q rest (defs @ [?blk s body]) c')"
    by blast
  then show ?case
  proof
    assume skip: "definitionsLoop env q (s # rest) defs c = definitionsLoop env q rest defs c'"
    from Cons.IH [of defs c'] obtain kept bodies where
      k: "subseq kept rest" "length bodies = length kept"
         "fst (definitionsLoop env q rest defs c') = defs @ map2 ?blk kept bodies"
      by blast
    from k(1) have "subseq kept (s # rest)" by (rule list_emb_Cons)
    with k skip show ?thesis by metis
  next
    assume "\<exists>body. definitionsLoop env q (s # rest) defs c =
             definitionsLoop env q rest (defs @ [?blk s body]) c'"
    then obtain body where keep: "definitionsLoop env q (s # rest) defs c =
             definitionsLoop env q rest (defs @ [?blk s body]) c'" by blast
    from Cons.IH [of "defs @ [?blk s body]" c'] obtain kept bodies where
      k: "subseq kept rest" "length bodies = length kept"
         "fst (definitionsLoop env q rest (defs @ [?blk s body]) c')
            = (defs @ [?blk s body]) @ map2 ?blk kept bodies"
      by blast
    have "subseq (s # kept) (s # rest)" using k(1) by simp
    moreover have "length (body # bodies) = length (s # kept)" using k(2) by simp
    moreover have "fst (definitionsLoop env q (s # rest) defs c)
        = defs @ map2 ?blk (s # kept) (body # bodies)"
      using keep k(3) by simp
    ultimately show ?thesis by blast
  qed
qed

lemma definitionsLoop_none_resolve:
  "(\<forall>s \<in> set results.
       kindAndContainer env q s = None
     \<or> (\<forall>c. fst (OpenFile env (URI_Path env (URI (GetLocation s))) c) \<noteq> None)
     \<or> (\<forall>c. snd (snd (fst (GetFullDefinition env (GetLocation s) c))) \<noteq> None))
   \<Longrightarrow> fst (definitionsLoop env q results defs c) = defs"
proof (induction results arbitrary: c)
  case Nil
  show ?case by simp
next
  case (Cons s rest)
  have IH: "\<And>c. fst (definitionsLoop env q rest defs c) = defs"
    using Cons by simp
  from Cons.prems have d:
    "kindAndContainer env q s = None
     \<or> (\<forall>c. fst (OpenFile env (URI_Path env (URI (GetLocation s))) c) \<noteq> None)
     \<or> (\<forall>c. snd (snd (fst (GetFullDefinition env (GetLocation s) c))) \<noteq> None)"
    by simp
  consider
      (name) "kindAndContainer env q s = None"
    | (opn) "\<forall>c. fst (OpenFile env (URI_Path env (URI (GetLocation s))) c) \<noteq> None"
    | (dfn) "\<forall>c. snd (snd (fst (GetFullDefinition env (GetLocation s) c))) \<noteq> None"
    using d by (elim disjE) 
  then show ?case
  proof cases
    case name
    then show ?thesis using IH by simp
  next
    case opn
    obtain r c1 where o: "OpenFile env (URI_Path env (URI (GetLocation s))) c = (r, c1)"
      by (cases "OpenFile env (URI_Path env (URI (GetLocation s))) c")
    with opn have "r \<noteq> None" by (metis fst_conv)
    then show ?thesis using o IH by (auto split: option.splits)
  next
    case dfn
    show ?thesis
    proof (cases "kindAndContainer env q s")
      case None
      then show ?thesis using IH by simp
    next
      case (Some kc)
      obtain r c1 where o: "OpenFile env (URI_Path env (URI (GetLocation s))) c = (r, c1)"
        by (cases "OpenFile env (URI_Path env (URI (GetLocation s))) c")
      obtain d l e c2 where g: "GetFullDefinition env (GetLocation s) c1 = ((d, l, e), c2)"
        by (cases "GetFullDefinition env (GetLocation s) c1") auto
      with dfn have "e \<noteq> None" by (metis fst_conv snd_conv)
      then show ?thesis using Some o g IH by (cases kc) (auto simp: Let_def split: option.splits)
    qed
  qed
qed

text \<open>
  Claim C7. When the symbol query and the decoding of its results succeed and no
  match yields a definition block, \<open>ReadDefinition\<close> returns the string
  \<open><query> not found\<close> and no error. This is so when the loop ends with no
  definitions, in particular when there are no matches at all, and when every
  match is dropped by the name test, cannot be opened, or cannot be expanded.
\<close>

theorem ReadDefinition_not_found:
  "(Symbol env q c = (Inr sr, c1) \<and> Results sr = Inr results
      \<and> definitionsLoop env q results [] c1 = ([], c2)
      \<longrightarrow> ReadDefinition env q c = (Inr (q @ '' not found''), c2))
   \<and> (Symbol env q c = (Inr sr, c1) \<and> Results sr = Inr []
      \<longrightarrow> ReadDefinition env q c = (Inr (q @ '' not found''), c1))
   \<and> (Symbol env q c = (Inr sr, c1) \<and> Results sr = Inr results
      \<and> (\<forall>s \<in> set results.
            kindAndContainer env q s = None
          \<or> (\<forall>c. fst (OpenFile env (URI_Path env (URI (GetLocation s))) c) \<noteq> None)
          \<or> (\<forall>c. snd (snd (fst (GetFullDefinition env (GetLocation s) c))) \<noteq> None))
      \<longrightarrow> fst (ReadDefinition env q c) = Inr (q @ '' not found''))"
proof (intro conjI impI)
  assume "Symbol env q c = (Inr sr, c1) \<and> Results sr = Inr results
      \<and> definitionsLoop env q results [] c1 = ([], c2)"
  then show "ReadDefinition env q c = (Inr (q @ '' not found''), c2)"
    by (simp add: ReadDefinition_def)
next
  assume "Symbol env q c = (Inr sr, c1) \<and> Results sr = Inr []"
  then show "ReadDefinition env q c = (Inr (q @ '' not found''), c1)"
    by (simp add: ReadDefinition_def)
next
  assume a: "Symbol env q c = (Inr sr, c1) \<and> Results sr = Inr results
      \<and> (\<forall>s \<in> set results.
            kindAndContainer env q s = None
          \<or> (\<forall>c. fst (OpenFile env (URI_Path env (URI (GetLocation s))) c) \<noteq> None)
          \<or> (\<forall>c. snd (snd (fst (GetFullDefinition env (GetLocation s) c))) \<noteq> None))"
  then have "fst (definitionsLoop env q results [] c1) = []"
    using definitionsLoop_none_resolve [of results env q "[]" c1] by blast
  then obtain c2 where "definitionsLoop env q results [] c1 = ([], c2)"
    by (cases "definitionsLoop env q results [] c1") auto
  with a show "fst (ReadDefinition env q c) = Inr (q @ '' not found'')"
    by (simp add: ReadDefinition_def)
qed

text \<open>
  Claim C5. The blocks of \<open>ReadDefinition\<close> follow the order of the backend's
  results: the loop over a list \<open>xs @ ys\<close> is the loop over \<open>xs\<close> followed by the
  loop over \<open>ys\<close>, the blocks belong to a subsequence of the results, each block
  starts with the banner and the line naming its symbol, and the output is the
  concatenation of the blocks, so that a banner stands between any two consecutive
  blocks.
\<close>

theorem ReadDefinition_order_and_banner:
  "definitionsLoop env q (xs @ ys) defs c =
     definitionsLoop env q ys (fst (definitionsLoop env q xs defs c))
       (snd (definitionsLoop env q xs defs c))
   \<and> (\<exists>kept bodies. subseq kept results \<and> length bodies = length kept \<and>
        fst (definitionsLoop env q results [] c1) =
          map2 (\<lambda>s body. banner @ ''Symbol: '' @ GetName s @ ''\<newline>'' @ body) kept bodies)
   \<and> (Symbol env q c = (Inr sr, c1) \<and> Results sr = Inr results
        \<and> definitionsLoop env q results [] c1 = (d # ds, c2)
      \<longrightarrow> ReadDefinition env q c = (Inr (concat (d # ds)), c2))"
proof (intro conjI impI)
  show "definitionsLoop env q (xs @ ys) defs c =
     definitionsLoop env q ys (fst (definitionsLoop env q xs defs c))
       (snd (definitionsLoop env q xs defs c))"
    by (rule definitionsLoop_append)
next
  show "\<exists>kept bodies. subseq kept results \<and> length bodies = length kept \<and>
        fst (definitionsLoop env q results [] c1) =
          map2 (\<lambda>s body. banner @ ''Symbol: '' @ GetName s @ ''\<newline>'' @ body) kept bodies"
    using definitionsLoop_subseq [of results env q "[]" c1] by simp
next
  assume "Symbol env q c = (Inr sr, c1) \<and> Results sr = Inr results
        \<and> definitionsLoop env q results [] c1 = (d # ds, c2)"
  then show "ReadDefinition env q c = (Inr (concat (d # ds)), c2)"
    by (simp add: ReadDefinition_def Join_no_separator)
qed

text \<open>
  Claim C4. A match of the fallback shape whose name differs from the query is
  dropped, and it passes the type switch only if its name equals the query. A
  \<open>SymbolInformation\<close> or \<open>WorkspaceSymbol\<close> match always passes the type switch,
  whatever its name; such a match, like a fallback match named as the query, yields
  a block as soon as its file opens and its definition expands.
\<close>

theorem ReadDefinition_name_filter:
  "(n \<noteq> q \<longrightarrow>
      definitionsLoop env q (OtherSymbol n l # rest) defs c = definitionsLoop env q rest defs c)
   \<and> kindAndContainer env q (SymbolInformation n k cn l) \<noteq> None
   \<and> kindAndContainer env q (WorkspaceSymbol n k cn l) \<noteq> None
   \<and> (kindAndContainer env q (OtherSymbol n l) \<noteq> None \<longleftrightarrow> n = q)
   \<and> ((s = SymbolInformation n k cn l \<or> s = WorkspaceSymbol n k cn l \<or> s = OtherSymbol q l)
        \<and> OpenFile env (URI_Path env (URI l)) c = (None, c1)
        \<and> GetFullDefinition env l c1 = ((d, loc, None), c2)
      \<longrightarrow> (\<exists>body. definitionsLoop env q (s # rest) defs c =
            definitionsLoop env q rest
              (defs @ [banner @ ''Symbol: '' @ GetName s @ ''\<newline>'' @ body]) c2))"
  by (auto simp: locationInfo_def Let_def)


theorem ReadDefinition_not_found_witness:
  "ReadDefinition
     (backend [OtherSymbol ''food'' (loc0 ''file:///a.cpp'' 0 0),
               WorkspaceSymbol ''foo'' 12 [] (loc0 ''file:///missing.cpp'' 2 0),
               SymbolInformation ''foo'' 5 [] (loc0 ''file:///nodef.cpp'' 4 0)] []) ''foo'' 0
     = (Inr ''foo not found'', 4)
   \<and> ReadDefinition (backend [] []) ''missing_symbol'' 0 = (Inr ''missing_symbol not found'', 1)
   \<and> fst (ReadDefinition (backend [OtherSymbol ''food'' (loc0 ''file:///a.cpp'' 0 0)] []) ''foo'' 0)
     = Inr ''foo not found''"
proof -
  let ?syms = "[OtherSymbol ''food'' (loc0 ''file:///a.cpp'' 0 0),
               WorkspaceSymbol ''foo'' 12 [] (loc0 ''file:///missing.cpp'' 2 0),
               SymbolInformation ''foo'' 5 [] (loc0 ''file:///nodef.cpp'' 4 0)]"
  have a1: "Symbol (backend ?syms []) ''foo'' 0 = (Inr (Inr ?syms), 1)
      \<and> Results (Inr ?syms) = Inr ?syms
      \<and> definitionsLoop (backend ?syms []) ''foo'' ?syms [] 1 = ([], 4)"
    by code_simp
  have a2: "Symbol (backend [] []) ''missing_symbol'' 0 = (Inr (Inr []), 1)
      \<and> Results (Inr []) = Inr []"
    by code_simp
  let ?one = "[OtherSymbol ''food'' (loc0 ''file:///a.cpp'' 0 0)]"
  have a3: "Symbol (backend ?one []) ''foo'' 0 = (Inr (Inr ?one), 1)
      \<and> Results (Inr ?one) = Inr ?one
      \<and> (\<forall>s \<in> set ?one.
            kindAndContainer (backend ?one []) ''foo'' s = None
          \<or> (\<forall>c. fst (OpenFile (backend ?one []) (URI_Path (backend ?one []) (URI (GetLocation s))) c) \<noteq> None)
          \<or> (\<forall>c. snd (snd (fst (GetFullDefinition (backend ?one []) (GetLocation s) c))) \<noteq> None))"
    by (simp add: backend_def Results_def)
  from ReadDefinition_not_found [THEN conjunct1, rule_format, OF a1]
  have r1: "ReadDefinition (backend ?syms []) ''foo'' 0 = (Inr (''foo'' @ '' not found''), 4)" .
  from ReadDefinition_not_found [THEN conjunct2, THEN conjunct1, rule_format, OF a2]
  have r2: "ReadDefinition (backend [] []) ''missing_symbol'' 0
      = (Inr (''missing_symbol'' @ '' not found''), 1)" .
  from ReadDefinition_not_found [THEN conjunct2, THEN conjunct2, rule_format, OF a3]
  have r3: "fst (ReadDefinition (backend ?one []) ''foo'' 0) = Inr (''foo'' @ '' not found'')" .
  from r1 r2 r3 show ?thesis by simp
qed

theorem ReadDefinition_order_and_banner_witness:
  "ReadDefinition
     (backend [WorkspaceSymbol ''g'' 5 ''N'' (loc0 ''file:///b.cpp'' 1 2),
               OtherSymbol ''h'' (loc0 ''file:///c.cpp'' 0 0),
               OtherSymbol ''g'' (loc0 ''file:///a.cpp'' 0 0)] []) ''g'' 0
   = (Inr (concat
       [''---\<newline>\<newline>Symbol: g\<newline>File: /b.cpp\<newline>Kind: Class\<newline>Container Name: N\<newline>Range: L2:C3 - L2:C6\<newline>\<newline>2|int f();\<newline>'',
        ''---\<newline>\<newline>Symbol: g\<newline>File: /a.cpp\<newline>Range: L1:C1 - L1:C4\<newline>\<newline>1|int f();\<newline>'']), 5)"
proof -
  let ?syms = "[WorkspaceSymbol ''g'' 5 ''N'' (loc0 ''file:///b.cpp'' 1 2),
               OtherSymbol ''h'' (loc0 ''file:///c.cpp'' 0 0),
               OtherSymbol ''g'' (loc0 ''file:///a.cpp'' 0 0)]"
  have a: "Symbol (backend ?syms []) ''g'' 0 = (Inr (Inr ?syms), 1)
      \<and> Results (Inr ?syms) = Inr ?syms
      \<and> definitionsLoop (backend ?syms []) ''g'' ?syms [] 1 =
          (''---\<newline>\<newline>Symbol: g\<newline>File: /b.cpp\<newline>Kind: Class\<newline>Container Name: N\<newline>Range: L2:C3 - L2:C6\<newline>\<newline>2|int f();\<newline>'' #
           [''---\<newline>\<newline>Symbol: g\<newline>File: /a.cpp\<newline>Range: L1:C1 - L1:C4\<newline>\<newline>1|int f();\<newline>''], 5)"
    by code_simp
  from ReadDefinition_order_and_banner [THEN conjunct2, THEN conjunct2, rule_format, OF a]
  show ?thesis .
qed

theorem ReadDefinition_name_filter_witness:
  "definitionsLoop (backend [] []) ''g''
     [OtherSymbol ''h'' (loc0 ''file:///c.cpp'' 0 0)] [] 1
     = definitionsLoop (backend [] []) ''g'' [] [] 1
   \<and> (\<exists>body. definitionsLoop (backend [] []) ''g''
         [SymbolInformation ''h'' 5 [] (loc0 ''file:///c.cpp'' 0 0)] [] 1
       = definitionsLoop (backend [] []) ''g'' []
           ([] @ [banner @ ''Symbol: '' @
              GetName (SymbolInformation ''h'' 5 [] (loc0 ''file:///c.cpp'' 0 0)) @
              ''\<newline>'' @ body]) 3)"
proof -
  have ne: "''h'' \<noteq> ''g''" by simp
  have a: "(SymbolInformation ''h'' 5 [] (loc0 ''file:///c.cpp'' 0 0)
             = SymbolInformation ''h'' 5 [] (loc0 ''file:///c.cpp'' 0 0)
           \<or> SymbolInformation ''h'' 5 [] (loc0 ''file:///c.cpp'' 0 0)
             = WorkspaceSymbol ''h'' 5 [] (loc0 ''file:///c.cpp'' 0 0)
           \<or> SymbolInformation ''h'' 5 [] (loc0 ''file:///c.cpp'' 0 0)
             = OtherSymbol ''g'' (loc0 ''file:///c.cpp'' 0 0))
      \<and> OpenFile (backend [] []) (URI_Path (backend [] []) (URI (loc0 ''file:///c.cpp'' 0 0))) 1
          = (None, 2)
      \<and> GetFullDefinition (backend [] []) (loc0 ''file:///c.cpp'' 0 0) 2
          = ((''int f();'', loc0 ''file:///c.cpp'' 0 0, None), 3)"
    by (simp add: backend_def loc0_def TrimPrefix_def)
  from ReadDefinition_name_filter [THEN conjunct1, rule_format, OF ne]
  have r1: "definitionsLoop (backend [] []) ''g''
     [OtherSymbol ''h'' (loc0 ''file:///c.cpp'' 0 0)] [] 1
     = definitionsLoop (backend [] []) ''g'' [] [] 1" .
  from ReadDefinition_name_filter [THEN conjunct2, THEN conjunct2, THEN conjunct2, THEN conjunct2,
      rule_format, OF a]
  have r2: "\<exists>body. definitionsLoop (backend [] []) ''g''
         [SymbolInformation ''h'' 5 [] (loc0 ''file:///c.cpp'' 0 0)] [] 1
       = definitionsLoop (backend [] []) ''g'' []
           ([] @ [banner @ ''Symbol: '' @
              GetName (SymbolInformation ''h'' 5 [] (loc0 ''file:///c.cpp'' 0 0)) @
              ''\<newline>'' @ body]) 3" .
  from r1 r2 show ?thesis by (rule conjI)
qed



section \<open>Properties of FindReferences\<close>









lemma referencesLoop_append:
  "referencesLoop env k (xs @ ys) acc c =
     (case referencesLoop env k xs acc c of
        (Inl e, c') \<Rightarrow> (Inl e, c')
      | (Inr acc', c') \<Rightarrow> referencesLoop env k ys acc' c')"
  by (induction xs arbitrary: acc c)
     (auto simp: Let_def split: option.splits prod.splits sum.splits)







text \<open>
  Claim C1. Let the results be \<open>pre @ symbol # rest\<close> and let the loop have
  passed \<open>pre\<close>. If the file of \<open>symbol\<close> opens and the references request fails,
  the whole call returns the error \<open>failed to get references: ...\<close>, whatever was
  collected before and whatever follows. If opening the file fails, the loop goes
  on with \<open>rest\<close>, with what was collected before, and the call returns what the
  remaining matches give.
\<close>

theorem FindReferences_open_failure_skips_references_failure_aborts:
  assumes "Symbol env q c = (Inr sr, c0)"
    and "Results sr = Inr (pre @ symbol # rest)"
    and "referencesLoop env (contextLinesFromEnv environ) pre [] c0 = (Inr acc, c1)"
  shows
  "(OpenFile env (URI_Path env (URI (GetLocation symbol))) c1 = (None, c2)
      \<and> References env \<lparr>TextDocument = URI (GetLocation symbol),
                         Position = Start (Range' (GetLocation symbol)),
                         IncludeDeclaration = False\<rparr> c2 = (Inl e, c3)
      \<longrightarrow> FindReferences env environ q c = (Inl (''failed to get references: '' @ e), c3))
   \<and> (OpenFile env (URI_Path env (URI (GetLocation symbol))) c1 = (Some e, c2)
      \<longrightarrow> referencesLoop env (contextLinesFromEnv environ) (pre @ symbol # rest) [] c0
          = referencesLoop env (contextLinesFromEnv environ) rest acc c2)
   \<and> (OpenFile env (URI_Path env (URI (GetLocation symbol))) c1 = (Some e, c2)
      \<and> referencesLoop env (contextLinesFromEnv environ) rest acc c2 = (Inr allRefs, c3)
      \<longrightarrow> FindReferences env environ q c =
            (if length allRefs = 0 then (Inr (''No references found for symbol: '' @ q), c3)
             else (Inr (Join allRefs ''\<newline>''), c3)))"
proof -
  let ?k = "contextLinesFromEnv environ"
  have split: "referencesLoop env ?k (pre @ symbol # rest) [] c0
      = referencesLoop env ?k (symbol # rest) acc c1"
    using assms(3) by (simp add: referencesLoop_append)
  have fr: "FindReferences env environ q c =
      (case referencesLoop env ?k (symbol # rest) acc c1 of
         (Inl e, c2) \<Rightarrow> (Inl e, c2)
       | (Inr allReferences, c2) \<Rightarrow>
           if length allReferences = 0
           then (Inr (''No references found for symbol: '' @ q), c2)
           else (Inr (Join allReferences ''\<newline>''), c2))"
    using assms(1,2) split by (simp add: FindReferences_def Let_def)
  show ?thesis
  proof (intro conjI impI)
    assume "OpenFile env (URI_Path env (URI (GetLocation symbol))) c1 = (None, c2)
      \<and> References env \<lparr>TextDocument = URI (GetLocation symbol),
                         Position = Start (Range' (GetLocation symbol)),
                         IncludeDeclaration = False\<rparr> c2 = (Inl e, c3)"
    then have "referencesLoop env ?k (symbol # rest) acc c1
        = (Inl (''failed to get references: '' @ e), c3)"
      by (simp add: Let_def)
    then show "FindReferences env environ q c = (Inl (''failed to get references: '' @ e), c3)"
      using fr by simp
  next
    assume "OpenFile env (URI_Path env (URI (GetLocation symbol))) c1 = (Some e, c2)"
    then show "referencesLoop env ?k (pre @ symbol # rest) [] c0 = referencesLoop env ?k rest acc c2"
      using split by (simp add: Let_def)
  next
    assume a: "OpenFile env (URI_Path env (URI (GetLocation symbol))) c1 = (Some e, c2)
      \<and> referencesLoop env ?k rest acc c2 = (Inr allRefs, c3)"
    then have "referencesLoop env ?k (symbol # rest) acc c1 = (Inr allRefs, c3)"
      by (simp add: Let_def)
    then show "FindReferences env environ q c =
            (if length allRefs = 0 then (Inr (''No references found for symbol: '' @ q), c3)
             else (Inr (Join allRefs ''\<newline>''), c3))"
      using fr by simp
  qed
qed

text \<open>
  Claim C10. When a file was read and the lines to display cannot be computed, the
  loop goes on with the next file and nothing is appended for this one: no header,
  no positions, no source lines. When the file cannot be read, the header with the
  count of references and the error text are appended.
\<close>

theorem FindReferences_range_failure_omits_block:
  "(ReadFile env (TrimPrefix u ''file://'') = Inr content
      \<and> GetLineRangesToDisplay env (lookupRefs m u) (length (SplitLines content)) k c = (Inl e, c1)
      \<longrightarrow> filesLoop env k m (u # rest) acc c = filesLoop env k m rest acc c1)
   \<and> (ReadFile env (TrimPrefix u ''file://'') = Inl e
      \<longrightarrow> filesLoop env k m (u # rest) acc c =
          filesLoop env k m rest
            (acc @ [''---\<newline>\<newline>'' @ TrimPrefix u ''file://'' @
                    ''\<newline>References in File: '' @ itoa (length (lookupRefs m u)) @ ''\<newline>'' @
                    ''\<newline>Error reading file: '' @ e]) c)"
  by (simp add: Let_def fileInfo_def)



theorem FindReferences_open_failure_skips_references_failure_aborts_witness:
  "FindReferences
     (backend [WorkspaceSymbol ''foo'' 12 [] (loc0 ''file:///a.cpp'' 0 0),
               WorkspaceSymbol ''foo'' 12 [] (loc0 ''file:///missing.cpp'' 1 0),
               WorkspaceSymbol ''foo'' 12 [] (loc0 ''file:///bad.cpp'' 2 0),
               WorkspaceSymbol ''foo'' 12 [] (loc0 ''file:///a.cpp'' 3 0)]
              [loc0 ''file:///b.cpp'' 3 4]) Map.empty ''foo'' 0
     = (Inl ''failed to get references: request failed'', 7)
   \<and> FindReferences
     (backend [WorkspaceSymbol ''foo'' 12 [] (loc0 ''file:///a.cpp'' 0 0),
               WorkspaceSymbol ''foo'' 12 [] (loc0 ''file:///missing.cpp'' 1 0)]
              [loc0 ''file:///b.cpp'' 3 4]) Map.empty ''foo'' 0
     = (Inr ''---\<newline>\<newline>/b.cpp\<newline>References in File: 1\<newline>At: L4:C5\<newline>\<newline><lines>'', 5)"
proof -
  let ?A = "WorkspaceSymbol ''foo'' 12 [] (loc0 ''file:///a.cpp'' 0 0)"
  let ?M = "WorkspaceSymbol ''foo'' 12 [] (loc0 ''file:///missing.cpp'' 1 0)"
  let ?B = "WorkspaceSymbol ''foo'' 12 [] (loc0 ''file:///bad.cpp'' 2 0)"
  let ?A' = "WorkspaceSymbol ''foo'' 12 [] (loc0 ''file:///a.cpp'' 3 0)"
  let ?refs = "[loc0 ''file:///b.cpp'' 3 4]"
  let ?blk = "''---\<newline>\<newline>/b.cpp\<newline>References in File: 1\<newline>At: L4:C5\<newline>\<newline><lines>''"
  let ?e1 = "backend [?A, ?M, ?B, ?A'] ?refs"
  let ?e2 = "backend [?A, ?M] ?refs"
  have s1: "Symbol ?e1 ''foo'' 0 = (Inr (Inr ([?A, ?M] @ ?B # [?A'])), 1)" by code_simp
  have p1: "Results (Inr ([?A, ?M] @ ?B # [?A'])) = Inr ([?A, ?M] @ ?B # [?A'])"
    by (simp add: Results_def)
  have l1: "referencesLoop ?e1 (contextLinesFromEnv Map.empty) [?A, ?M] [] 1 = (Inr [?blk], 5)"
    by code_simp
  have h1: "OpenFile ?e1 (URI_Path ?e1 (URI (GetLocation ?B))) 5 = (None, 6)
      \<and> References ?e1 \<lparr>TextDocument = URI (GetLocation ?B),
                         Position = Start (Range' (GetLocation ?B)),
                         IncludeDeclaration = False\<rparr> 6 = (Inl ''request failed'', 7)"
    by code_simp
  from FindReferences_open_failure_skips_references_failure_aborts
         [OF s1 p1 l1, THEN conjunct1, rule_format, OF h1]
  have r1: "FindReferences ?e1 Map.empty ''foo'' 0
      = (Inl (''failed to get references: '' @ ''request failed''), 7)" .
  have s2: "Symbol ?e2 ''foo'' 0 = (Inr (Inr ([?A] @ ?M # [])), 1)" by code_simp
  have p2: "Results (Inr ([?A] @ ?M # [])) = Inr ([?A] @ ?M # [])"
    by (simp add: Results_def)
  have l2: "referencesLoop ?e2 (contextLinesFromEnv Map.empty) [?A] [] 1 = (Inr [?blk], 4)"
    by code_simp
  have h2: "OpenFile ?e2 (URI_Path ?e2 (URI (GetLocation ?M))) 4 = (Some ''no such file'', 5)
      \<and> referencesLoop ?e2 (contextLinesFromEnv Map.empty) [] [?blk] 5 = (Inr [?blk], 5)"
    by code_simp
  from FindReferences_open_failure_skips_references_failure_aborts
         [OF s2 p2 l2, THEN conjunct2, THEN conjunct2, rule_format, OF h2]
  have r2: "FindReferences ?e2 Map.empty ''foo'' 0
      = (if length [?blk] = 0 then (Inr (''No references found for symbol: '' @ ''foo''), 5)
         else (Inr (Join [?blk] ''\<newline>''), 5))" .
  from r1 r2 show ?thesis by simp
qed

theorem FindReferences_range_failure_omits_block_witness:
  "filesLoop (backend [] []) 5
     [(''file:///norange.cpp'', [loc0 ''file:///norange.cpp'' 1 1])]
     [''file:///norange.cpp''] [] 3
     = ([], 4)
   \<and> filesLoop (backend [] []) 5
     [(''file:///unreadable.cpp'', [loc0 ''file:///unreadable.cpp'' 1 1])]
     [''file:///unreadable.cpp''] [] 3
     = ([''---\<newline>\<newline>/unreadable.cpp\<newline>References in File: 1\<newline>\<newline>Error reading file: permission denied''], 3)"
proof -
  let ?env = "backend [] [] :: (nat, unit, unit) collaborators"
  let ?m1 = "[(''file:///norange.cpp'', [loc0 ''file:///norange.cpp'' 1 1])]"
  let ?m2 = "[(''file:///unreadable.cpp'', [loc0 ''file:///unreadable.cpp'' 1 1])]"
  have h1: "ReadFile ?env (TrimPrefix ''file:///norange.cpp'' ''file://'') = Inr ''a\<newline>b''
      \<and> GetLineRangesToDisplay ?env (lookupRefs ?m1 ''file:///norange.cpp'')
            (length (SplitLines ''a\<newline>b'')) 5 3 = (Inl ''no ranges'', 4)"
    by code_simp
  have h2: "ReadFile ?env (TrimPrefix ''file:///unreadable.cpp'' ''file://'')
      = Inl ''permission denied''"
    by code_simp
  have e2: "''---\<newline>\<newline>'' @ TrimPrefix ''file:///unreadable.cpp'' ''file://'' @
            ''\<newline>References in File: '' @
            itoa (length (lookupRefs ?m2 ''file:///unreadable.cpp'')) @ ''\<newline>'' @
            ''\<newline>Error reading file: '' @ ''permission denied''
      = ''---\<newline>\<newline>/unreadable.cpp\<newline>References in File: 1\<newline>\<newline>Error reading file: permission denied''"
    by code_simp
  from FindReferences_range_failure_omits_block [THEN conjunct1, rule_format, OF h1,
         of "[]" "[]"]
  have r1: "filesLoop ?env 5 ?m1 [''file:///norange.cpp''] [] 3 = ([], 4)"
    by simp
  from FindReferences_range_failure_omits_block [THEN conjunct2, rule_format, OF h2,
         of 5 ?m2 "[]" "[]" 3]
  have r2: "filesLoop ?env 5 ?m2 [''file:///unreadable.cpp''] [] 3
      = ([''---\<newline>\<newline>/unreadable.cpp\<newline>References in File: 1\<newline>\<newline>Error reading file: permission denied''], 3)"
    unfolding e2 by simp
  from r1 r2 show ?thesis by (rule conjI)
qed




section \<open>Properties of the warm-up\<close>

lemma openLoop_log:
  "\<exists>entries. fst (snd (openLoop env files n lg c)) = lg @ entries"
proof (induction files arbitrary: n lg c)
  case Nil
  show ?case by simp
next
  case (Cons f rest)
  show ?case
  proof (cases "n \<ge> maxFilesToOpen")
    case True
    then show ?thesis by simp
  next
    case False
    obtain r c1 where o: "OpenFile env f c = (r, c1)" by (cases "OpenFile env f c")
    show ?thesis
    proof (cases r)
      case None
      from Cons [of "n + 1" "lg @ [(Debug, ''Opened core C++ file: '' @ f)]" c1]
      show ?thesis using False o None by auto
    next
      case (Some e)
      from Cons [of n "lg @ [(Warn, ''Failed to open C++ file '' @ f @ '': '' @ e)]" c1]
      show ?thesis using False o Some by auto
    qed
  qed
qed

lemma openCoreCppFiles_log:
  "\<exists>entries. fst (snd (openCoreCppFiles env fs ws lg c)) = lg @ entries"
proof (cases "Walk ws fs []")
  case (Pair r files)
  show ?thesis
  proof (cases r)
    case (Some e)
    with Pair show ?thesis by (simp add: openCoreCppFiles_def)
  next
    case None
    let ?lg1 = "lg @ [(Info, ''Opening core C++ files in workspace: '' @ ws)]"
    from openLoop_log [of env files 0 ?lg1 c] obtain entries where
      "fst (snd (openLoop env files 0 ?lg1 c)) = ?lg1 @ entries" by blast
    with Pair None show ?thesis
      by (cases "openLoop env files 0 ?lg1 c") (auto simp: openCoreCppFiles_def)
  qed
qed

lemma openCoreCppFiles_error:
  "fst (openCoreCppFiles env fs ws lg c) =
     (case fst (Walk ws fs []) of
        None \<Rightarrow> None
      | Some e \<Rightarrow> Some (''error walking workspace directory: '' @ e))"
  by (cases "Walk ws fs []")
     (auto simp: openCoreCppFiles_def split: option.splits prod.splits)

lemma warmupClangdStaticIndex_result:
  "warmupClangdStaticIndex env lg c =
     (None,
      lg @ [(Info, ''Warming up clangd static index...''),
            (case fst (Symbol env ''::'' c) of
               Inl e \<Rightarrow> (Warn, ''First warmup symbol query failed: '' @ e)
             | Inr x \<Rightarrow> (Debug, ''First warmup symbol query completed'')),
            (case fst (Symbol env [] (snd (Symbol env ''::'' c))) of
               Inl e \<Rightarrow> (Warn, ''Second warmup symbol query failed: '' @ e)
             | Inr x \<Rightarrow> (Debug, ''Second warmup symbol query completed'')),
            (Info, ''Static index warmup completed'')],
      snd (Symbol env [] (snd (Symbol env ''::'' c))))"
  by (simp add: warmupClangdStaticIndex_def Let_def split: prod.splits)

lemma initialize_unfold:
  "initializeClangdLanguageServer env fs ws lg c =
     (None,
      (let lg4 = fst (snd (openCoreCppFiles env fs ws
                   (fst (snd (warmupClangdStaticIndex env
                      (lg @ [(Info, ''Initializing Clangd language server with workspace: '' @ ws)]) c)))
                   (snd (Symbol env [] (snd (Symbol env ''::'' c))))))
       in (case fst (Walk ws fs []) of
             None \<Rightarrow> lg4
           | Some e \<Rightarrow> lg4 @ [(Warn, ''Failed to open core C++ files (continuing anyway): '' @
                                 ''error walking workspace directory: '' @ e)])
          @ [(Info, ''Clangd language server initialization completed successfully'')]),
      snd (snd (openCoreCppFiles env fs ws
                   (fst (snd (warmupClangdStaticIndex env
                      (lg @ [(Info, ''Initializing Clangd language server with workspace: '' @ ws)]) c)))
                   (snd (Symbol env [] (snd (Symbol env ''::'' c)))))))"
proof -
  let ?lg1 = "lg @ [(Info, ''Initializing Clangd language server with workspace: '' @ ws)]"
  obtain lg2 c1 where w: "warmupClangdStaticIndex env ?lg1 c = (None, lg2, c1)"
    and c1: "c1 = snd (Symbol env [] (snd (Symbol env ''::'' c)))"
    using warmupClangdStaticIndex_result [of env ?lg1 c] by simp
  obtain e2 lg4 c2 where oc: "openCoreCppFiles env fs ws lg2 c1 = (e2, lg4, c2)"
    by (cases "openCoreCppFiles env fs ws lg2 c1") auto
  have e2: "e2 = (case fst (Walk ws fs []) of
        None \<Rightarrow> None
      | Some e \<Rightarrow> Some (''error walking workspace directory: '' @ e))"
    using openCoreCppFiles_error [of env fs ws lg2 c1] oc by simp
  show ?thesis
    using w c1 oc e2
    by (simp add: initializeClangdLanguageServer_def Let_def split: option.splits)
qed

text \<open>
  Claim C9. \<open>initializeClangdLanguageServer\<close> returns no error, for every client,
  every workspace and every state. The warm-up of the static index returns no error
  even when its queries fail; it logs a warning for each failed query. A failure of
  the walk makes \<open>openCoreCppFiles\<close> return an error, which is logged as a warning
  and not returned; a file that cannot be opened is logged and the loop goes on
  with the next file. The log is only extended, and its last entry reports the
  completion.
\<close>

theorem initializeClangdLanguageServer_never_fails:
  "fst (initializeClangdLanguageServer env fs workspaceDir lg c) = None
   \<and> fst (warmupClangdStaticIndex env lg c) = None
   \<and> (\<exists>entries. fst (snd (initializeClangdLanguageServer env fs workspaceDir lg c)) =
         lg @ entries @ [(Info, ''Clangd language server initialization completed successfully'')])
   \<and> (fst (Symbol env ''::'' c) = Inl e \<longrightarrow>
        (Warn, ''First warmup symbol query failed: '' @ e)
          \<in> set (fst (snd (warmupClangdStaticIndex env lg c))))
   \<and> (fst (Symbol env [] (snd (Symbol env ''::'' c))) = Inl e \<longrightarrow>
        (Warn, ''Second warmup symbol query failed: '' @ e)
          \<in> set (fst (snd (warmupClangdStaticIndex env lg c))))
   \<and> (fst (Walk workspaceDir fs []) = Some e \<longrightarrow>
        fst (openCoreCppFiles env fs workspaceDir lg c)
          = Some (''error walking workspace directory: '' @ e)
        \<and> (Warn, ''Failed to open core C++ files (continuing anyway): '' @
                  ''error walking workspace directory: '' @ e)
          \<in> set (fst (snd (initializeClangdLanguageServer env fs workspaceDir lg c))))
   \<and> (fileCount < maxFilesToOpen \<and> OpenFile env filePath c = (Some e, c1) \<longrightarrow>
        openLoop env (filePath # rest) fileCount lg c =
          openLoop env rest fileCount
            (lg @ [(Warn, ''Failed to open C++ file '' @ filePath @ '': '' @ e)]) c1)"
proof (intro conjI impI)
  show "fst (initializeClangdLanguageServer env fs workspaceDir lg c) = None"
    by (simp add: initialize_unfold)
next
  show "fst (warmupClangdStaticIndex env lg c) = None"
    by (simp add: warmupClangdStaticIndex_result)
next
  let ?lg1 = "lg @ [(Info, ''Initializing Clangd language server with workspace: '' @ workspaceDir)]"
  let ?lg2 = "fst (snd (warmupClangdStaticIndex env ?lg1 c))"
  let ?c1 = "snd (Symbol env [] (snd (Symbol env ''::'' c)))"
  obtain w where w: "?lg2 = ?lg1 @ w"
    by (simp add: warmupClangdStaticIndex_result)
  obtain es where es: "fst (snd (openCoreCppFiles env fs workspaceDir ?lg2 ?c1)) = ?lg2 @ es"
    using openCoreCppFiles_log [of env fs workspaceDir ?lg2 ?c1] by (elim exE)
  show "\<exists>entries. fst (snd (initializeClangdLanguageServer env fs workspaceDir lg c)) =
         lg @ entries @ [(Info, ''Clangd language server initialization completed successfully'')]"
  proof (cases "fst (Walk workspaceDir fs [])")
    case None
    have "fst (snd (initializeClangdLanguageServer env fs workspaceDir lg c)) =
        lg @ ([(Info, ''Initializing Clangd language server with workspace: '' @ workspaceDir)] @ w @ es)
           @ [(Info, ''Clangd language server initialization completed successfully'')]"
      using None w es by (simp add: initialize_unfold Let_def)
    then show ?thesis by blast
  next
    case (Some e)
    have "fst (snd (initializeClangdLanguageServer env fs workspaceDir lg c)) =
        lg @ ([(Info, ''Initializing Clangd language server with workspace: '' @ workspaceDir)] @ w @ es
              @ [(Warn, ''Failed to open core C++ files (continuing anyway): '' @
                        ''error walking workspace directory: '' @ e)])
           @ [(Info, ''Clangd language server initialization completed successfully'')]"
      using Some w es by (simp add: initialize_unfold Let_def)
    then show ?thesis by blast
  qed
next
  assume "fst (Symbol env ''::'' c) = Inl e"
  then show "(Warn, ''First warmup symbol query failed: '' @ e)
          \<in> set (fst (snd (warmupClangdStaticIndex env lg c)))"
    by (simp add: warmupClangdStaticIndex_result)
next
  assume "fst (Symbol env [] (snd (Symbol env ''::'' c))) = Inl e"
  then show "(Warn, ''Second warmup symbol query failed: '' @ e)
          \<in> set (fst (snd (warmupClangdStaticIndex env lg c)))"
    by (simp add: warmupClangdStaticIndex_result)
next
  assume "fst (Walk workspaceDir fs []) = Some e"
  then show "fst (openCoreCppFiles env fs workspaceDir lg c)
          = Some (''error walking workspace directory: '' @ e)"
    by (simp add: openCoreCppFiles_error)
next
  assume "fst (Walk workspaceDir fs []) = Some e"
  then show "(Warn, ''Failed to open core C++ files (continuing anyway): '' @
                  ''error walking workspace directory: '' @ e)
          \<in> set (fst (snd (initializeClangdLanguageServer env fs workspaceDir lg c)))"
    by (simp add: initialize_unfold Let_def)
next
  assume "fileCount < maxFilesToOpen \<and> OpenFile env filePath c = (Some e, c1)"
  then show "openLoop env (filePath # rest) fileCount lg c =
          openLoop env rest fileCount
            (lg @ [(Warn, ''Failed to open C++ file '' @ filePath @ '': '' @ e)]) c1"
    by simp
qed

theorem initializeClangdLanguageServer_never_fails_witness:
  "initializeClangdLanguageServer
     ((backend [] []) \<lparr>Symbol := (\<lambda>q c. (Inl ''server not ready'', c + 1))\<rparr>)
     (Dir ''ws'' [File ''a.cpp'', DirUnreadable ''src'' ''permission denied''])
     ''/ws'' [] 0
   = (None,
      [(Info, ''Initializing Clangd language server with workspace: /ws''),
       (Info, ''Warming up clangd static index...''),
       (Warn, ''First warmup symbol query failed: server not ready''),
       (Warn, ''Second warmup symbol query failed: server not ready''),
       (Info, ''Static index warmup completed''),
       (Info, ''Opening core C++ files in workspace: /ws''),
       (Warn, ''Failed to open core C++ files (continuing anyway): error walking workspace directory: permission denied''),
       (Info, ''Clangd language server initialization completed successfully'')],
      2)
   \<and> (Warn, ''First warmup symbol query failed: '' @ ''server not ready'')
        \<in> set (fst (snd (warmupClangdStaticIndex
             ((backend [] []) \<lparr>Symbol := (\<lambda>q c. (Inl ''server not ready'', c + 1))\<rparr>) [] 0)))
   \<and> (Warn, ''Second warmup symbol query failed: '' @ ''server not ready'')
        \<in> set (fst (snd (warmupClangdStaticIndex
             ((backend [] []) \<lparr>Symbol := (\<lambda>q c. (Inl ''server not ready'', c + 1))\<rparr>) [] 0)))
   \<and> (Warn, ''Failed to open core C++ files (continuing anyway): '' @
             ''error walking workspace directory: '' @ ''permission denied'')
        \<in> set (fst (snd (initializeClangdLanguageServer
             ((backend [] []) \<lparr>Symbol := (\<lambda>q c. (Inl ''server not ready'', c + 1))\<rparr>)
             (Dir ''ws'' [File ''a.cpp'', DirUnreadable ''src'' ''permission denied''])
             ''/ws'' [] 0)))
   \<and> openLoop (backend [] []) [''/missing.cpp'', ''/ws/a.cpp''] 0 [] 0
       = (1, [(Warn, ''Failed to open C++ file /missing.cpp: no such file''),
              (Debug, ''Opened core C++ file: /ws/a.cpp'')], 2)"
proof -
  let ?env = "(backend [] [] :: (nat, unit, unit) collaborators)
               \<lparr>Symbol := (\<lambda>q c. (Inl ''server not ready'', c + 1))\<rparr>"
  let ?fs = "Dir ''ws'' [File ''a.cpp'', DirUnreadable ''src'' ''permission denied'']"
  note t = initializeClangdLanguageServer_never_fails
  have ev: "initializeClangdLanguageServer ?env ?fs ''/ws'' [] 0
   = (None,
      [(Info, ''Initializing Clangd language server with workspace: /ws''),
       (Info, ''Warming up clangd static index...''),
       (Warn, ''First warmup symbol query failed: server not ready''),
       (Warn, ''Second warmup symbol query failed: server not ready''),
       (Info, ''Static index warmup completed''),
       (Info, ''Opening core C++ files in workspace: /ws''),
       (Warn, ''Failed to open core C++ files (continuing anyway): error walking workspace directory: permission denied''),
       (Info, ''Clangd language server initialization completed successfully'')],
      2)"
    by code_simp
  have h1: "fst (Symbol ?env ''::'' 0) = Inl ''server not ready''" by simp
  have h2: "fst (Symbol ?env [] (snd (Symbol ?env ''::'' 0))) = Inl ''server not ready''" by simp
  have h3: "fst (Walk ''/ws'' ?fs []) = Some ''permission denied''" by code_simp
  have h4: "(0 :: nat) < maxFilesToOpen
      \<and> OpenFile (backend [] [] :: (nat, unit, unit) collaborators) ''/missing.cpp'' 0
          = (Some ''no such file'', 1)"
    by (simp add: maxFilesToOpen_def backend_def)
  have ev2: "openLoop (backend [] [] :: (nat, unit, unit) collaborators) [''/ws/a.cpp''] 0
       ([] @ [(Warn, ''Failed to open C++ file '' @ ''/missing.cpp'' @ '': '' @ ''no such file'')]) 1
       = (1, [(Warn, ''Failed to open C++ file /missing.cpp: no such file''),
              (Debug, ''Opened core C++ file: /ws/a.cpp'')], 2)"
    by code_simp
  from t [where env = ?env and lg = "[]" and c = 0, THEN conjunct2, THEN conjunct2,
          THEN conjunct2, THEN conjunct1, THEN mp, OF h1]
  have r1: "(Warn, ''First warmup symbol query failed: '' @ ''server not ready'')
        \<in> set (fst (snd (warmupClangdStaticIndex ?env [] 0)))" .
  from t [where env = ?env and lg = "[]" and c = 0, THEN conjunct2, THEN conjunct2,
          THEN conjunct2, THEN conjunct2, THEN conjunct1, THEN mp, OF h2]
  have r2: "(Warn, ''Second warmup symbol query failed: '' @ ''server not ready'')
        \<in> set (fst (snd (warmupClangdStaticIndex ?env [] 0)))" .
  from t [where env = ?env and lg = "[]" and c = 0 and fs = ?fs and workspaceDir = "''/ws''",
          THEN conjunct2, THEN conjunct2, THEN conjunct2, THEN conjunct2, THEN conjunct2,
          THEN conjunct1, THEN mp, OF h3, THEN conjunct2]
  have r3: "(Warn, ''Failed to open core C++ files (continuing anyway): '' @
             ''error walking workspace directory: '' @ ''permission denied'')
        \<in> set (fst (snd (initializeClangdLanguageServer ?env ?fs ''/ws'' [] 0)))" .
  from t [where env = "backend [] [] :: (nat, unit, unit) collaborators" and lg = "[]"
            and c = 0 and rest = "[''/ws/a.cpp'']",
          THEN conjunct2, THEN conjunct2, THEN conjunct2, THEN conjunct2, THEN conjunct2,
          THEN conjunct2, THEN mp, OF h4]
  have r4: "openLoop (backend [] []) [''/missing.cpp'', ''/ws/a.cpp''] 0 [] 0
       = (1, [(Warn, ''Failed to open C++ file /missing.cpp: no such file''),
              (Debug, ''Opened core C++ file: /ws/a.cpp'')], 2)"
    unfolding ev2 .
  from ev r1 r2 r3 r4 show ?thesis by (intro conjI)
qed

end
